theory Spec2Isabelle
  imports Complex_Main
begin

section \<open>Values, errors and NumPy arithmetic\<close>

text \<open>
  The module \<open>BoundaryData.py\<close> holds four classes. Arrays are NumPy arrays of
  \<open>complex64\<close>; they are modelled as lists of complex numbers, and floating-point
  values as exact reals (rounding and overflow are not modelled). What IEEE arithmetic
  adds to the reals is kept where the code can reach it: a division by zero on a NumPy
  scalar raises nothing and yields an infinity or a NaN, which is the value
  \<open>NonFinite\<close> below; a division by zero between two plain Python floats raises
  \<open>ZeroDivisionError\<close>.
\<close>

datatype error = AttributeError | IndexError | TypeError | ValueError | ZeroDivisionError

datatype 'a fp = Finite 'a | NonFinite

text \<open>A real scalar is a Python \<open>float\<close> or a NumPy scalar; the two divide differently.\<close>

datatype scalar = PyFloat real | NpFloat real

fun val :: "scalar \<Rightarrow> real" where
  "val (PyFloat x) = x"
| "val (NpFloat x) = x"

text \<open>\<open>s += x\<close> with \<open>x\<close> a NumPy scalar: the sum is a NumPy scalar.\<close>

definition np_iadd :: "scalar \<Rightarrow> real \<Rightarrow> scalar" where
  "np_iadd s x = NpFloat (val s + x)"

text \<open>\<open>n * s\<close> with \<open>n\<close> a Python number keeps the kind of \<open>s\<close>.\<close>

fun py_times :: "real \<Rightarrow> scalar \<Rightarrow> scalar" where
  "py_times n (PyFloat x) = PyFloat (n * x)"
| "py_times n (NpFloat x) = NpFloat (n * x)"

text \<open>
  \<open>a / b\<close>: Python's float division raises on a zero divisor; as soon as one operand is
  a NumPy scalar, NumPy divides, and a zero divisor gives \<open>inf\<close> or \<open>nan\<close>.
\<close>

fun truediv :: "scalar \<Rightarrow> scalar \<Rightarrow> error + real fp" where
  "truediv (PyFloat a) (PyFloat b) =
     (if b = 0 then Inl ZeroDivisionError else Inr (Finite (a / b)))"
| "truediv a b = (if val b = 0 then Inr NonFinite else Inr (Finite (val a / val b)))"

text \<open>Complex NumPy scalars: division and accumulation.\<close>

definition np_div :: "complex \<Rightarrow> complex \<Rightarrow> complex fp" where
  "np_div x y = (if y = 0 then NonFinite else Finite (x / y))"

fun fp_add :: "complex fp \<Rightarrow> complex fp \<Rightarrow> complex fp" where
  "fp_add (Finite a) (Finite b) = Finite (a + b)"
| "fp_add _ _ = NonFinite"

text \<open>\<open>a[i]\<close> for \<open>i\<close> from a \<open>range\<close>: out of bounds raises \<open>IndexError\<close>.\<close>

definition index :: "'a list \<Rightarrow> nat \<Rightarrow> error + 'a" where
  "index xs i = (if i < length xs then Inr (xs ! i) else Inl IndexError)"

text \<open>
  \<open>np.empty(size, dtype = np.complex64)\<close>: a negative size raises \<open>ValueError\<close>
  (negative dimensions are not allowed); otherwise the array has \<open>size\<close> entries whose
  contents are whatever the memory held, here the parameter \<open>mem\<close>.
\<close>

definition np_empty :: "(nat \<Rightarrow> complex) \<Rightarrow> int \<Rightarrow> error + complex list" where
  "np_empty mem N =
     (if N < 0 then Inl ValueError else Inr (map mem [0..<nat N]))"

section \<open>AcousticProperties\<close>

text \<open>
  Modelled from the spec: the module \<open>AcousticProperties\<close>, imported by
  \<open>BoundaryData.py\<close>, is not part of the sources at hand. Its \<open>soundPressure\<close> is
  the relation \<open>p = i * rho * c * k * phi\<close>, a pure function of
  \<open>k\<close>, \<open>phi\<close>, \<open>c\<close> and \<open>density\<close>.
\<close>

definition soundPressure :: "real \<Rightarrow> complex \<Rightarrow> real \<Rightarrow> real \<Rightarrow> complex" where
  "soundPressure k phi c density =
     \<i> * of_real density * of_real c * of_real k * phi"

text \<open>
  Modelled from the spec: applied to the whole array \<open>aPhi\<close>, the same relation holds entry
  by entry, and the result has the length of \<open>aPhi\<close>.
\<close>

definition soundPressure_array ::
  "real \<Rightarrow> complex list \<Rightarrow> real \<Rightarrow> real \<Rightarrow> complex list" where
  "soundPressure_array k aPhi c density =
     map (\<lambda>phi. soundPressure k phi c density) aPhi"

text \<open>
  Modelled from the spec: \<open>AcousticIntensity\<close> of the same missing module is the
  time-averaged intensity \<open>0.5 * Re(p * conj(v))\<close>.
\<close>

definition AcousticIntensity :: "complex \<Rightarrow> complex \<Rightarrow> real" where
  "AcousticIntensity pressure velocity = 0.5 * Re (pressure * cnj velocity)"

section \<open>BoundaryCondition and BoundaryIncidence\<close>

record BoundaryCondition =
  alpha :: "complex list"
  beta :: "complex list"
  f :: "complex list"

record BoundaryIncidence =
  phi :: "complex list"
  v :: "complex list"

text \<open>The constructors allocate their arrays one after the other; the first failure ends them.\<close>

definition BoundaryCondition_init ::
  "(nat \<Rightarrow> complex) \<Rightarrow> (nat \<Rightarrow> complex) \<Rightarrow> (nat \<Rightarrow> complex) \<Rightarrow> int
   \<Rightarrow> error + BoundaryCondition" where
  "BoundaryCondition_init m1 m2 m3 N =
     (case np_empty m1 N of Inl e \<Rightarrow> Inl e | Inr a \<Rightarrow>
      (case np_empty m2 N of Inl e \<Rightarrow> Inl e | Inr b \<Rightarrow>
       (case np_empty m3 N of Inl e \<Rightarrow> Inl e | Inr g \<Rightarrow>
          Inr \<lparr>alpha = a, beta = b, f = g\<rparr>)))"

definition BoundaryIncidence_init ::
  "(nat \<Rightarrow> complex) \<Rightarrow> (nat \<Rightarrow> complex) \<Rightarrow> int \<Rightarrow> error + BoundaryIncidence" where
  "BoundaryIncidence_init m1 m2 N =
     (case np_empty m1 N of Inl e \<Rightarrow> Inl e | Inr a \<Rightarrow>
      (case np_empty m2 N of Inl e \<Rightarrow> Inl e | Inr b \<Rightarrow>
          Inr \<lparr>phi = a, v = b\<rparr>))"

section \<open>Instances and attribute access\<close>

text \<open>
  The parent solver is not part of this module. The code reads its attributes
  \<open>density\<close> and \<open>c\<close> and calls its method \<open>elementArea()\<close>; the record holds what
  these give.
\<close>

record Solver =
  density :: real
  c :: real
  elementArea :: "real list"

text \<open>
  An instance is its attribute dictionary: \<open>self.name = value\<close> adds an entry, and reading
  an attribute that was never set raises \<open>AttributeError\<close>.
\<close>

datatype attr =
    Parent Solver
  | Condition BoundaryCondition
  | Float real
  | Array "complex list"
  | Instance "(string \<times> attr) list"

type_synonym obj = "(string \<times> attr) list"

definition getattr :: "obj \<Rightarrow> string \<Rightarrow> error + attr" where
  "getattr self name =
     (case map_of self name of None \<Rightarrow> Inl AttributeError | Some a \<Rightarrow> Inr a)"

text \<open>Reading an attribute where the code goes on to use it as a number, an array or the solver.\<close>

definition get_float :: "obj \<Rightarrow> string \<Rightarrow> error + real" where
  "get_float self name =
     (case getattr self name of Inl e \<Rightarrow> Inl e
      | Inr a \<Rightarrow> (case a of Float x \<Rightarrow> Inr x | _ \<Rightarrow> Inl TypeError))"

definition get_array :: "obj \<Rightarrow> string \<Rightarrow> error + complex list" where
  "get_array self name =
     (case getattr self name of Inl e \<Rightarrow> Inl e
      | Inr a \<Rightarrow> (case a of Array xs \<Rightarrow> Inr xs | _ \<Rightarrow> Inl TypeError))"

definition get_parent :: "obj \<Rightarrow> string \<Rightarrow> error + Solver" where
  "get_parent self name =
     (case getattr self name of Inl e \<Rightarrow> Inl e
      | Inr a \<Rightarrow> (case a of Parent p \<Rightarrow> Inr p | _ \<Rightarrow> Inl TypeError))"

section \<open>BoundarySolution\<close>

text \<open>The constructor stores its five arguments and checks nothing.\<close>

definition BoundarySolution_init ::
  "Solver \<Rightarrow> BoundaryCondition \<Rightarrow> real \<Rightarrow> complex list \<Rightarrow> complex list \<Rightarrow> obj" where
  "BoundarySolution_init parent boundaryCondition k aPhi aV =
     [(''parent'', Parent parent),
      (''boundaryCondidtion'', Condition boundaryCondition),
      (''k'', Float k),
      (''aPhi'', Array aPhi),
      (''aV'', Array aV)]"

text \<open>
  \<open>__repr__\<close> builds its string piece by piece; \<open>repr\<close> is Python's built-in on the
  stored values.
\<close>

definition BoundarySolution_repr :: "(attr \<Rightarrow> string) \<Rightarrow> obj \<Rightarrow> error + string" where
  "BoundarySolution_repr repr self =
     (case getattr self ''parent'' of Inl e \<Rightarrow> Inl e | Inr p \<Rightarrow>
      (case getattr self ''boundaryCondition'' of Inl e \<Rightarrow> Inl e | Inr bc \<Rightarrow>
       (case getattr self ''k'' of Inl e \<Rightarrow> Inl e | Inr k \<Rightarrow>
        (case getattr self ''aPhi'' of Inl e \<Rightarrow> Inl e | Inr aPhi \<Rightarrow>
         (case getattr self ''aV'' of Inl e \<Rightarrow> Inl e | Inr aV \<Rightarrow>
            Inr (''BoundarySolution(''
                 @ ''parent = '' @ repr p @ '', ''
                 @ ''boundaryCondition = '' @ repr bc @ '', ''
                 @ ''k = '' @ repr k @ '', ''
                 @ ''aPhi = '' @ repr aPhi @ '', ''
                 @ ''aV = '' @ repr aV @ '')''))))))"

definition pressure :: "obj \<Rightarrow> error + complex list" where
  "pressure self =
     (case get_float self ''k'' of Inl e \<Rightarrow> Inl e | Inr k \<Rightarrow>
      (case get_array self ''aPhi'' of Inl e \<Rightarrow> Inl e | Inr aPhi \<Rightarrow>
       (case get_parent self ''parent'' of Inl e \<Rightarrow> Inl e | Inr parent \<Rightarrow>
          Inr (soundPressure_array k aPhi (c parent) (density parent)))))"

text \<open>
  The loop of \<open>radiationRatio\<close> over \<open>range(self.aPhi.size)\<close>, with the two accumulators
  \<open>power\<close> and \<open>bpower\<close> (here \<open>pwr\<close> and \<open>bpwr\<close>); each pass reads the attributes
  it needs.
\<close>

fun radiationRatio_loop :: "obj \<Rightarrow> nat list \<Rightarrow> scalar \<times> scalar \<Rightarrow> error + scalar \<times> scalar" where
  "radiationRatio_loop self [] acc = Inr acc"
| "radiationRatio_loop self (i # rest) (pwr, bpwr) =
     (case get_float self ''k'' of Inl e \<Rightarrow> Inl e | Inr k \<Rightarrow>
      (case get_array self ''aPhi'' of Inl e \<Rightarrow> Inl e | Inr aPhi \<Rightarrow>
       (case index aPhi i of Inl e \<Rightarrow> Inl e | Inr phi_i \<Rightarrow>
        (case get_parent self ''parent'' of Inl e \<Rightarrow> Inl e | Inr parent \<Rightarrow>
         (case get_array self ''aV'' of Inl e \<Rightarrow> Inl e | Inr aV \<Rightarrow>
          (case index aV i of Inl e \<Rightarrow> Inl e | Inr v_i \<Rightarrow>
             radiationRatio_loop self rest
               (np_iadd pwr
                  (AcousticIntensity
                     (soundPressure k phi_i (c parent) (density parent)) v_i),
                np_iadd bpwr (density parent * c parent * (cmod v_i)\<^sup>2))))))))"

definition radiationRatio :: "obj \<Rightarrow> error + real fp" where
  "radiationRatio self =
     (case get_array self ''aPhi'' of Inl e \<Rightarrow> Inl e | Inr aPhi \<Rightarrow>
      (case radiationRatio_loop self [0..<length aPhi] (PyFloat 0, PyFloat 0) of
         Inl e \<Rightarrow> Inl e
       | Inr (pwr, bpwr) \<Rightarrow> truediv (py_times 2 pwr) bpwr))"

text \<open>
  \<open>mechanicalImpedance\<close> runs over \<open>zip\<close> of the pressures, the areas and the
  velocities; \<open>zip\<close> stops with its shortest argument.
\<close>

definition zip3 :: "'a list \<Rightarrow> 'b list \<Rightarrow> 'c list \<Rightarrow> ('a \<times> 'b \<times> 'c) list" where
  "zip3 xs ys zs = zip xs (zip ys zs)"

fun Zm_step :: "complex fp \<Rightarrow> complex \<times> real \<times> complex \<Rightarrow> complex fp" where
  "Zm_step Zm (p, a, vel) = fp_add Zm (np_div (p * of_real a) vel)"

definition mechanicalImpedance :: "obj \<Rightarrow> error + complex fp" where
  "mechanicalImpedance self =
     (case pressure self of Inl e \<Rightarrow> Inl e | Inr ps \<Rightarrow>
      (case get_parent self ''parent'' of Inl e \<Rightarrow> Inl e | Inr parent \<Rightarrow>
       (case get_array self ''aV'' of Inl e \<Rightarrow> Inl e | Inr aV \<Rightarrow>
          Inr (foldl Zm_step (Finite 0) (zip3 ps (elementArea parent) aV)))))"

section \<open>SampleSolution\<close>

definition SampleSolution_init :: "obj \<Rightarrow> complex list \<Rightarrow> obj" where
  "SampleSolution_init boundarySolution aPhi =
     [(''boundarySolution'', Instance boundarySolution),
      (''aPhi'', Array aPhi)]"

definition SampleSolution_repr :: "(attr \<Rightarrow> string) \<Rightarrow> obj \<Rightarrow> error + string" where
  "SampleSolution_repr repr self =
     (case getattr self ''parent'' of Inl e \<Rightarrow> Inl e | Inr p \<Rightarrow>
      (case getattr self ''aPhi'' of Inl e \<Rightarrow> Inl e | Inr aPhi \<Rightarrow>
         Inr (''SampleSolution(''
              @ ''boundarySolution = '' @ repr p @ '', ''
              @ ''aPhi = '' @ repr aPhi @ '')'')))"

section \<open>Attribute access on constructed instances\<close>

lemma BoundarySolution_k [simp]:
  "get_float (BoundarySolution_init parent bc k aPhi aV) ''k'' = Inr k"
  by (simp add: get_float_def getattr_def BoundarySolution_init_def)

lemma BoundarySolution_aPhi [simp]:
  "get_array (BoundarySolution_init parent bc k aPhi aV) ''aPhi'' = Inr aPhi"
  by (simp add: get_array_def getattr_def BoundarySolution_init_def)

lemma BoundarySolution_aV [simp]:
  "get_array (BoundarySolution_init parent bc k aPhi aV) ''aV'' = Inr aV"
  by (simp add: get_array_def getattr_def BoundarySolution_init_def)

lemma BoundarySolution_parent [simp]:
  "get_parent (BoundarySolution_init parent bc k aPhi aV) ''parent'' = Inr parent"
  by (simp add: get_parent_def getattr_def BoundarySolution_init_def)

lemma pressure_init:
  "pressure (BoundarySolution_init parent bc k aPhi aV) =
     Inr (soundPressure_array k aPhi (c parent) (density parent))"
  by (simp add: pressure_def)

section \<open>Construction of the leaf containers\<close>

text \<open>
  C5: constructing BoundaryCondition or BoundaryIncidence with a negative size fails
  (NumPy's \<open>ValueError\<close> for a negative dimension is the invalid-size error), in
  particular for size -1, while size 0 succeeds and gives empty arrays.
\<close>

theorem negative_size_rejected:
  "(N < 0 \<longrightarrow>
      BoundaryCondition_init m1 m2 m3 N = Inl ValueError \<and>
      BoundaryIncidence_init m1 m2 N = Inl ValueError) \<and>
   BoundaryCondition_init m1 m2 m3 (- 1) = Inl ValueError \<and>
   BoundaryIncidence_init m1 m2 (- 1) = Inl ValueError \<and>
   BoundaryCondition_init m1 m2 m3 0 = Inr \<lparr>alpha = [], beta = [], f = []\<rparr> \<and>
   BoundaryIncidence_init m1 m2 0 = Inr \<lparr>phi = [], v = []\<rparr>"
  by (simp add: BoundaryCondition_init_def BoundaryIncidence_init_def np_empty_def)

theorem negative_size_rejected_witness:
  "(- 7 :: int) < 0 \<and>
   BoundaryCondition_init (\<lambda>_. 0) (\<lambda>_. 1) (\<lambda>_. \<i>) (- 7) = Inl ValueError \<and>
   BoundaryIncidence_init (\<lambda>_. 0) (\<lambda>_. 1) (- 7) = Inl ValueError"
  using negative_size_rejected [of "- 7" "\<lambda>_. 0" "\<lambda>_. 1" "\<lambda>_. \<i>"] by simp

text \<open>
  C9: for every size N that is not negative, BoundaryCondition(N) holds three arrays
  alpha, beta, f of length N each, and BoundaryIncidence(N) two arrays phi, v of length N
  each.
\<close>

theorem container_lengths:
  assumes "0 \<le> N"
  shows "\<exists>bc bi.
      BoundaryCondition_init m1 m2 m3 N = Inr bc \<and>
      length (alpha bc) = nat N \<and> length (beta bc) = nat N \<and>
      length (f bc) = nat N \<and>
      BoundaryIncidence_init m1 m2 N = Inr bi \<and>
      length (phi bi) = nat N \<and> length (v bi) = nat N"
  using assms
  by (simp add: BoundaryCondition_init_def BoundaryIncidence_init_def np_empty_def)

theorem container_lengths_witness:
  "(0::int) \<le> 3 \<and>
   (\<exists>bc bi.
      BoundaryCondition_init (\<lambda>_. 0) (\<lambda>_. 1) (\<lambda>_. \<i>) 3 = Inr bc \<and>
      length (alpha bc) = 3 \<and> length (beta bc) = 3 \<and> length (f bc) = 3 \<and>
      BoundaryIncidence_init (\<lambda>_. 0) (\<lambda>_. 1) 3 = Inr bi \<and>
      length (phi bi) = 3 \<and> length (v bi) = 3)"
  using container_lengths [of 3 "\<lambda>_. 0" "\<lambda>_. 1" "\<lambda>_. \<i>"] by simp

section \<open>Pressure\<close>

text \<open>
  C4: for a BoundarySolution with N elements, pressure() returns a sequence of length N
  whose i-th entry is i * rho * c * k * aPhi[i], with rho and c those of the parent; for
  k = 1.0, c = 343.0, density = 1.21 and aPhi = [1, i] it returns [415.03 i, -415.03].
\<close>

theorem pressure_entries:
  "(\<exists>ps. pressure (BoundarySolution_init parent bc k aPhi aV) = Inr ps \<and>
      length ps = length aPhi \<and>
      (\<forall>i<length aPhi.
         ps ! i = \<i> * of_real (density parent) * of_real (c parent) * of_real k * aPhi ! i)) \<and>
   pressure (BoundarySolution_init \<lparr>density = 1.21, c = 343.0, elementArea = areas\<rparr>
       bc 1.0 [1, \<i>] aV) = Inr [Complex 0 415.03, Complex (- 415.03) 0]"
  by (simp add: pressure_init soundPressure_array_def soundPressure_def complex_eq_iff)

theorem pressure_entries_witness:
  "\<exists>ps. pressure (BoundarySolution_init
      \<lparr>density = 1.21, c = 343, elementArea = [1, 1]\<rparr>
      \<lparr>alpha = [], beta = [], f = []\<rparr> 2 [3, \<i>] [1, 1]) = Inr ps \<and>
      length ps = 2 \<and> ps ! 0 = \<i> * 1.21 * 343 * 2 * 3 \<and> ps ! 1 = \<i> * 1.21 * 343 * 2 * \<i>"
  using pressure_entries [of
      "\<lparr>density = 1.21, c = 343, elementArea = [1, 1]\<rparr>"
      "\<lparr>alpha = [], beta = [], f = []\<rparr>" 2 "[3, \<i>]" "[1, 1]" "[1, 1]"]
  by auto

text \<open>
  C6: with k, c and density fixed, replacing aPhi by z * aPhi multiplies every entry of
  pressure() by z; and an all-zero aPhi gives an all-zero pressure().
\<close>

theorem pressure_linear:
  "\<exists>ps. pressure (BoundarySolution_init parent bc k aPhi aV) = Inr ps \<and>
     pressure (BoundarySolution_init parent bc k (map (\<lambda>x. z * x) aPhi) aV) =
       Inr (map (\<lambda>p. z * p) ps) \<and>
     pressure (BoundarySolution_init parent bc k (replicate n 0) aV) = Inr (replicate n 0)"
  by (simp add: pressure_init soundPressure_array_def soundPressure_def)

section \<open>Mechanical impedance\<close>

lemma mechanicalImpedance_init:
  "mechanicalImpedance (BoundarySolution_init parent bc k aPhi aV) =
     Inr (foldl Zm_step (Finite 0)
            (zip3 (soundPressure_array k aPhi (c parent) (density parent))
               (elementArea parent) aV))"
  by (simp add: mechanicalImpedance_def pressure_init)

lemma fp_add_NonFinite [simp]: "fp_add NonFinite x = NonFinite"
  by (cases x) simp_all

lemma foldl_Zm_step_NonFinite [simp]: "foldl Zm_step NonFinite xs = NonFinite"
  by (induction xs) auto

lemma foldl_Zm_step_zero:
  "(p, a, 0) \<in> set xs \<Longrightarrow> foldl Zm_step z xs = NonFinite"
proof (induction xs arbitrary: z)
  case Nil
  then show ?case by simp
next
  case (Cons x xs)
  show ?case
  proof (cases "x = (p, a, 0)")
    case True
    then show ?thesis by (cases z) (simp_all add: np_div_def)
  next
    case False
    with Cons.prems have "(p, a, 0) \<in> set xs" by simp
    then show ?thesis using Cons.IH by simp
  qed
qed

lemma zip3_nth:
  "i < length xs \<Longrightarrow> i < length ys \<Longrightarrow> i < length zs \<Longrightarrow>
     zip3 xs ys zs ! i = (xs ! i, ys ! i, zs ! i) \<and> i < length (zip3 xs ys zs)"
  by (simp add: zip3_def)

lemma zip3_take:
  "zip3 (take n xs) (take n ys) (take n zs) = take n (zip3 xs ys zs)"
  by (simp add: zip3_def take_zip)

lemma length_zip3: "length (zip3 xs ys zs) = min (length xs) (min (length ys) (length zs))"
  by (simp add: zip3_def)

text \<open>
  C8: for a single element with unit area and a velocity that is not zero,
  mechanicalImpedance() is pressure()[0] / aV[0].
\<close>

theorem impedance_single_element:
  assumes "aPhi = [phi1]" and "aV = [v1]" and "elementArea parent = [1]" and "v1 \<noteq> 0"
  shows "\<exists>ps. pressure (BoundarySolution_init parent bc k aPhi aV) = Inr ps \<and>
     mechanicalImpedance (BoundarySolution_init parent bc k aPhi aV) =
       Inr (Finite (ps ! 0 / v1))"
  using assms
  by (simp add: mechanicalImpedance_init pressure_init zip3_def soundPressure_array_def
      np_div_def)

theorem impedance_single_element_witness:
  "(2::complex) \<noteq> 0 \<and>
   (\<exists>ps. pressure (BoundarySolution_init \<lparr>density = 1.21, c = 343, elementArea = [1]\<rparr>
      \<lparr>alpha = [], beta = [], f = []\<rparr> 1 [3] [2]) = Inr ps \<and>
      mechanicalImpedance (BoundarySolution_init
            \<lparr>density = 1.21, c = 343, elementArea = [1]\<rparr>
      \<lparr>alpha = [], beta = [], f = []\<rparr> 1 [3] [2]) =
        Inr (Finite (ps ! 0 / 2)))"
  using impedance_single_element [of "[3]" 3 "[2]" 2
      "\<lparr>density = 1.21, c = 343, elementArea = [1]\<rparr>" "\<lparr>alpha = [], beta = [], f = []\<rparr>" 1]
  by simp

text \<open>
  C1, as the claim states it, fails: with the single velocity aV[0] = 0,
  mechanicalImpedance() raises nothing and returns a non-finite value.
\<close>

theorem impedance_zero_velocity_counterexample:
  "mechanicalImpedance (BoundarySolution_init \<lparr>density = 1, c = 1, elementArea = [1]\<rparr>
      \<lparr>alpha = [], beta = [], f = []\<rparr> 1 [1] [0]) = Inr NonFinite"
  by (simp add: mechanicalImpedance_init zip3_def soundPressure_array_def np_div_def)

text \<open>
  C1, amended: whenever an element i that the loop reaches (i below the lengths of aPhi,
  of the areas and of aV) has aV[i] = 0, mechanicalImpedance() raises no error and returns
  a non-finite value (Inf or NaN).
\<close>

theorem impedance_zero_velocity:
  assumes "i < length aPhi" and "i < length (elementArea parent)" and "i < length aV"
    and "aV ! i = 0"
  shows "mechanicalImpedance (BoundarySolution_init parent bc k aPhi aV) = Inr NonFinite"
proof -
  let ?ps = "soundPressure_array k aPhi (c parent) (density parent)"
  let ?zs = "zip3 ?ps (elementArea parent) aV"
  have len: "i < length ?ps" using assms(1) by (simp add: soundPressure_array_def)
  have "?zs ! i = (?ps ! i, elementArea parent ! i, 0)" and "i < length ?zs"
    using zip3_nth [OF len assms(2) assms(3)] assms(4) by simp_all
  then have "(?ps ! i, elementArea parent ! i, 0) \<in> set ?zs"
    by (metis nth_mem)
  then have "foldl Zm_step (Finite 0) ?zs = NonFinite"
    by (rule foldl_Zm_step_zero)
  then show ?thesis by (simp add: mechanicalImpedance_init)
qed

theorem impedance_zero_velocity_witness:
  "(1::nat) < length [3, 4 :: complex] \<and> 1 < length [1, 1 :: real] \<and>
   1 < length [2, 0 :: complex] \<and> [2, 0 :: complex] ! 1 = 0 \<and>
   mechanicalImpedance (BoundarySolution_init
      \<lparr>density = 1.21, c = 343, elementArea = [1, 1]\<rparr>
      \<lparr>alpha = [], beta = [], f = []\<rparr> 1 [3, 4] [2, 0]) = Inr NonFinite"
  using impedance_zero_velocity [of 1 "[3, 4]"
      "\<lparr>density = 1.21, c = 343, elementArea = [1, 1]\<rparr>" "[2, 0]"
      "\<lparr>alpha = [], beta = [], f = []\<rparr>" 1]
  by simp

text \<open>
  C2, as the claim states it, fails: with two potentials and one velocity, construction
  and mechanicalImpedance() raise nothing, and the second potential is dropped.
\<close>

theorem impedance_length_mismatch_counterexample:
  "mechanicalImpedance (BoundarySolution_init \<lparr>density = 1, c = 1, elementArea = [1, 1]\<rparr>
      \<lparr>alpha = [], beta = [], f = []\<rparr> 1 [1, 5] [1]) = Inr (Finite \<i>)"
  by (simp add: mechanicalImpedance_init zip3_def soundPressure_array_def soundPressure_def
      np_div_def)

text \<open>
  C2, amended: a disagreement between the lengths of aPhi, aV and the parent's areas is
  detected neither by the constructor, which checks nothing, nor by
  mechanicalImpedance(): it raises no error and returns the sum over the first
  min(len(aPhi), len(areas), len(aV)) elements, the value it returns on the arrays cut to
  that common length.
\<close>

theorem impedance_truncates:
  "let n = min (length aPhi) (min (length (elementArea parent)) (length aV)) in
   \<exists>z. mechanicalImpedance (BoundarySolution_init parent bc k aPhi aV) = Inr z \<and>
       mechanicalImpedance (BoundarySolution_init
          (parent\<lparr>elementArea := take n (elementArea parent)\<rparr>) bc k
          (take n aPhi) (take n aV)) = Inr z"
proof -
  define n where "n = min (length aPhi) (min (length (elementArea parent)) (length aV))"
  let ?ps = "soundPressure_array k aPhi (c parent) (density parent)"
  have "soundPressure_array k (take n aPhi) (c parent) (density parent) = take n ?ps"
    by (simp add: soundPressure_array_def take_map)
  moreover have "take n (zip3 ?ps (elementArea parent) aV) = zip3 ?ps (elementArea parent) aV"
    by (simp add: n_def length_zip3 soundPressure_array_def)
  ultimately have "\<exists>z. mechanicalImpedance (BoundarySolution_init parent bc k aPhi aV) = Inr z \<and>
       mechanicalImpedance (BoundarySolution_init
          (parent\<lparr>elementArea := take n (elementArea parent)\<rparr>) bc k
          (take n aPhi) (take n aV)) = Inr z"
    by (simp add: mechanicalImpedance_init zip3_take)
  then show ?thesis
    unfolding n_def Let_def .
qed

section \<open>Radiation ratio\<close>

lemma radiationRatio_init:
  "radiationRatio (BoundarySolution_init parent bc k aPhi aV) =
     (case radiationRatio_loop (BoundarySolution_init parent bc k aPhi aV)
             [0..<length aPhi] (PyFloat 0, PyFloat 0) of
        Inl e \<Rightarrow> Inl e
      | Inr (pwr, bpwr) \<Rightarrow> truediv (py_times 2 pwr) bpwr)"
  by (simp add: radiationRatio_def)

text \<open>With every velocity read by the loop equal to zero, the blocked power stays zero.\<close>

lemma loop_zero_velocity:
  assumes "\<forall>i\<in>set js. i < length aPhi \<and> i < length aV \<and> aV ! i = 0"
  shows "\<exists>pwr'. radiationRatio_loop (BoundarySolution_init parent bc k aPhi aV) js (pwr, bpwr) =
           Inr (pwr', if js = [] then bpwr else NpFloat (val bpwr))"
  using assms
proof (induction js arbitrary: pwr bpwr)
  case Nil
  then show ?case by simp
next
  case (Cons j js)
  then have j: "index aPhi j = Inr (aPhi ! j)" "index aV j = Inr 0"
    by (simp_all add: index_def)
  from Cons.prems have rest: "\<forall>i\<in>set js. i < length aPhi \<and> i < length aV \<and> aV ! i = 0"
    by simp
  show ?case
    using Cons.IH [OF rest, of "np_iadd pwr
        (AcousticIntensity (soundPressure k (aPhi ! j) (c parent) (density parent)) 0)"
        "np_iadd bpwr 0"]
    by (auto simp: j np_iadd_def)
qed

text \<open>
  C3, as the claim states it, fails: with one element and aV = [0], radiationRatio()
  raises nothing and returns a non-finite value.
\<close>

theorem radiation_zero_velocity_counterexample:
  "radiationRatio (BoundarySolution_init \<lparr>density = 1, c = 1, elementArea = [1]\<rparr>
      \<lparr>alpha = [], beta = [], f = []\<rparr> 1 [1] [0]) = Inr NonFinite"
  by (simp add: radiationRatio_init index_def np_iadd_def)

text \<open>
  C3, amended: for a BoundarySolution whose velocities are all zero (aV at least as long
  as aPhi), radiationRatio() with at least one element raises no error and returns a
  non-finite value (NaN); only with no element at all does it fail, with Python's
  ZeroDivisionError.
\<close>

theorem radiation_zero_velocity:
  assumes "length aPhi \<le> length aV" and "\<forall>x\<in>set aV. x = 0"
  shows "radiationRatio (BoundarySolution_init parent bc k aPhi aV) =
     (if aPhi = [] then Inl ZeroDivisionError else Inr NonFinite)"
proof -
  have "\<forall>i\<in>set [0..<length aPhi]. i < length aPhi \<and> i < length aV \<and> aV ! i = 0"
    using assms by auto
  from loop_zero_velocity [OF this, of parent bc k "PyFloat 0" "PyFloat 0"]
  obtain pwr' where
    "radiationRatio_loop (BoundarySolution_init parent bc k aPhi aV) [0..<length aPhi] (PyFloat 0, PyFloat 0) =
       Inr (pwr', if aPhi = [] then PyFloat 0 else NpFloat 0)"
    by auto
  moreover have "aPhi = [] \<Longrightarrow> pwr' = PyFloat 0"
    using calculation by simp
  ultimately show ?thesis
    by (cases pwr') (auto simp: radiationRatio_init)
qed

theorem radiation_zero_velocity_witness:
  "length [3, 4 :: complex] \<le> length [0, 0 :: complex] \<and>
   set [0, 0 :: complex] \<subseteq> {0} \<and>
   radiationRatio (BoundarySolution_init
      \<lparr>density = 1.21, c = 343, elementArea = [1, 1]\<rparr>
      \<lparr>alpha = [], beta = [], f = []\<rparr> 1 [3, 4] [0, 0]) = Inr NonFinite"
  using radiation_zero_velocity [of "[3, 4]" "[0, 0]"
      "\<lparr>density = 1.21, c = 343, elementArea = [1, 1]\<rparr>"
      "\<lparr>alpha = [], beta = [], f = []\<rparr>" 1]
  by simp

lemma AcousticIntensity_double:
  "AcousticIntensity (soundPressure k (2 * x) cc d) (2 * y) =
     4 * AcousticIntensity (soundPressure k x cc d) y"
  by (simp add: AcousticIntensity_def soundPressure_def algebra_simps)

lemma np_iadd_times: "np_iadd (py_times n s) (n * x) = py_times n (np_iadd s x)"
  by (cases s) (simp_all add: np_iadd_def algebra_simps)

lemma loop_double:
  "radiationRatio_loop (BoundarySolution_init parent bc k
        (map (\<lambda>x. 2 * x) aPhi) (map (\<lambda>x. 2 * x) aV)) js
      (py_times 4 pwr, py_times 4 bpwr) =
   map_sum id (\<lambda>(p, b). (py_times 4 p, py_times 4 b))
     (radiationRatio_loop (BoundarySolution_init parent bc k aPhi aV) js (pwr, bpwr))"
proof (induction js arbitrary: pwr bpwr)
  case Nil
  then show ?case by simp
next
  case (Cons j js)
  let ?A = "map (\<lambda>x. 2 * x) aPhi" and ?V = "map (\<lambda>x. 2 * x) aV"
  let ?S2 = "BoundarySolution_init parent bc k ?A ?V"
  let ?I = "\<lambda>x y. AcousticIntensity (soundPressure k x (c parent) (density parent)) y"
  let ?B = "\<lambda>y. density parent * c parent * (cmod y)\<^sup>2"
  show ?case
  proof (cases "j < length aPhi \<and> j < length aV")
    case True
    have idx: "index aPhi j = Inr (aPhi ! j)" "index aV j = Inr (aV ! j)"
      "index ?A j = Inr (2 * aPhi ! j)" "index ?V j = Inr (2 * aV ! j)"
      using True by (simp_all add: index_def)
    have sq: "?B (2 * y) = 4 * ?B y" for y
      by (simp add: norm_mult power_mult_distrib)
    have "radiationRatio_loop ?S2 (j # js) (py_times 4 pwr, py_times 4 bpwr) =
        radiationRatio_loop ?S2 js
          (np_iadd (py_times 4 pwr) (?I (2 * aPhi ! j) (2 * aV ! j)),
           np_iadd (py_times 4 bpwr) (?B (2 * aV ! j)))"
      by (simp only: radiationRatio_loop.simps idx sum.case BoundarySolution_k
          BoundarySolution_aPhi BoundarySolution_aV BoundarySolution_parent)
    also have "\<dots> = radiationRatio_loop ?S2 js
          (py_times 4 (np_iadd pwr (?I (aPhi ! j) (aV ! j))),
           py_times 4 (np_iadd bpwr (?B (aV ! j))))"
      by (simp only: AcousticIntensity_double sq np_iadd_times)
    also have "\<dots> = map_sum id (\<lambda>(p, b). (py_times 4 p, py_times 4 b))
          (radiationRatio_loop (BoundarySolution_init parent bc k aPhi aV) js
             (np_iadd pwr (?I (aPhi ! j) (aV ! j)), np_iadd bpwr (?B (aV ! j))))"
      by (rule Cons.IH)
    also have "\<dots> = map_sum id (\<lambda>(p, b). (py_times 4 p, py_times 4 b))
          (radiationRatio_loop (BoundarySolution_init parent bc k aPhi aV) (j # js) (pwr, bpwr))"
      by (simp only: radiationRatio_loop.simps idx sum.case BoundarySolution_k
          BoundarySolution_aPhi BoundarySolution_aV BoundarySolution_parent)
    finally show ?thesis .
  next
    case False
    then show ?thesis by (auto simp: index_def)
  qed
qed

lemma truediv_scaled:
  "truediv (py_times 2 (py_times 4 p)) (py_times 4 b) = truediv (py_times 2 p) b"
  by (cases p; cases b) simp_all

text \<open>
  C7: for a BoundarySolution with a velocity that is not zero, doubling aPhi and aV
  together leaves radiationRatio() unchanged.
\<close>

theorem radiation_doubling:
  assumes "\<exists>x\<in>set aV. x \<noteq> 0"
  shows "radiationRatio (BoundarySolution_init parent bc k
             (map (\<lambda>x. 2 * x) aPhi) (map (\<lambda>x. 2 * x) aV)) =
         radiationRatio (BoundarySolution_init parent bc k aPhi aV)"
proof -
  have "radiationRatio_loop (BoundarySolution_init parent bc k
        (map (\<lambda>x. 2 * x) aPhi) (map (\<lambda>x. 2 * x) aV))
          [0..<length aPhi] (PyFloat 0, PyFloat 0) =
        map_sum id (\<lambda>(p, b). (py_times 4 p, py_times 4 b))
          (radiationRatio_loop (BoundarySolution_init parent bc k aPhi aV) [0..<length aPhi] (PyFloat 0, PyFloat 0))"
    using loop_double [of parent bc k aPhi aV "[0..<length aPhi]" "PyFloat 0" "PyFloat 0"]
    by simp
  then show ?thesis
    by (cases "radiationRatio_loop (BoundarySolution_init parent bc k aPhi aV) [0..<length aPhi] (PyFloat 0, PyFloat 0)")
       (auto simp: radiationRatio_init truediv_scaled)
qed

theorem radiation_doubling_witness:
  "(\<exists>x\<in>set [1, 1 :: complex]. x \<noteq> 0) \<and>
   radiationRatio (BoundarySolution_init
      \<lparr>density = 1.21, c = 343, elementArea = [1, 1]\<rparr>
      \<lparr>alpha = [], beta = [], f = []\<rparr> 1 [2, 2 * \<i>] [2, 2]) =
     radiationRatio (BoundarySolution_init
      \<lparr>density = 1.21, c = 343, elementArea = [1, 1]\<rparr>
      \<lparr>alpha = [], beta = [], f = []\<rparr> 1 [1, \<i>] [1, 1]) \<and>
   radiationRatio (BoundarySolution_init
      \<lparr>density = 1.21, c = 343, elementArea = [1, 1]\<rparr>
      \<lparr>alpha = [], beta = [], f = []\<rparr> 1 [1, \<i>] [1, 1]) =
     Inr (Finite (- 1 / 2))"
  using radiation_doubling [of "[1, 1]"
      "\<lparr>density = 1.21, c = 343, elementArea = [1, 1]\<rparr>"
      "\<lparr>alpha = [], beta = [], f = []\<rparr>" 1 "[1, \<i>]"]
  by (simp add: radiationRatio_init index_def np_iadd_def AcousticIntensity_def
      soundPressure_def)

section \<open>Textual representation\<close>

text \<open>
  C10: repr() of every BoundarySolution raises AttributeError, since the constructor
  stores the boundary condition as boundaryCondidtion and __repr__ reads
  boundaryCondition; and repr() of every SampleSolution raises AttributeError, since
  __repr__ reads an attribute parent that the constructor never sets.
\<close>

theorem repr_raises_AttributeError:
  "BoundarySolution_repr repr (BoundarySolution_init parent bc k aPhi aV) =
     Inl AttributeError \<and>
   SampleSolution_repr repr (SampleSolution_init boundarySolution samplePhi) =
     Inl AttributeError"
  by (simp add: BoundarySolution_repr_def SampleSolution_repr_def getattr_def
      BoundarySolution_init_def SampleSolution_init_def)

end
